theory Spec2Isabelle
  imports Complex_Main
begin

section \<open>JavaScript numbers and errors\<close>

text \<open>
  The numerical core of VisionCharts computes with JavaScript numbers. The embedding
  works in exact arithmetic: a finite number is a real. Every result that is not a
  finite number is \<open>NaN\<close>; that covers the source's \<open>NaN\<close> and, as a simplification,
  also its two infinities (division of a non-zero number by zero, \<open>Math.log(0)\<close>), which
  the embedding does not follow any further. As in the source, \<open>NaN\<close> is absorbed by
  every arithmetic operation and every comparison with it is false. The rounding that the
  engine applies after each operation is the subject of the section on double precision.
\<close>

datatype number = Num real | NaN

instantiation number :: "{plus, minus, uminus, times, inverse, ord}"
begin

fun plus_number :: "number \<Rightarrow> number \<Rightarrow> number" where
  "plus_number (Num a) (Num b) = Num (a + b)"
| "plus_number _ _ = NaN"

fun minus_number :: "number \<Rightarrow> number \<Rightarrow> number" where
  "minus_number (Num a) (Num b) = Num (a - b)"
| "minus_number _ _ = NaN"

fun uminus_number :: "number \<Rightarrow> number" where
  "uminus_number (Num a) = Num (- a)"
| "uminus_number NaN = NaN"

fun times_number :: "number \<Rightarrow> number \<Rightarrow> number" where
  "times_number (Num a) (Num b) = Num (a * b)"
| "times_number _ _ = NaN"

fun divide_number :: "number \<Rightarrow> number \<Rightarrow> number" where
  "divide_number (Num a) (Num b) = (if b = 0 then NaN else Num (a / b))"
| "divide_number _ _ = NaN"

fun inverse_number :: "number \<Rightarrow> number" where
  "inverse_number (Num a) = (if a = 0 then NaN else Num (1 / a))"
| "inverse_number NaN = NaN"

fun less_eq_number :: "number \<Rightarrow> number \<Rightarrow> bool" where
  "less_eq_number (Num a) (Num b) = (a \<le> b)"
| "less_eq_number _ _ = False"

fun less_number :: "number \<Rightarrow> number \<Rightarrow> bool" where
  "less_number (Num a) (Num b) = (a < b)"
| "less_number _ _ = False"

instance ..

end

text \<open>Strict equality \<open>===\<close> on numbers: \<open>NaN\<close> is not equal to itself.\<close>

fun strict_eq :: "number \<Rightarrow> number \<Rightarrow> bool" where
  "strict_eq (Num a) (Num b) = (a = b)"
| "strict_eq _ _ = False"

fun Math_log :: "number \<Rightarrow> number" where
  "Math_log (Num x) = (if 0 < x then Num (ln x) else NaN)"
| "Math_log NaN = NaN"

fun Math_log10 :: "number \<Rightarrow> number" where
  "Math_log10 (Num x) = (if 0 < x then Num (log 10 x) else NaN)"
| "Math_log10 NaN = NaN"

fun Math_floor :: "number \<Rightarrow> number" where
  "Math_floor (Num x) = Num (of_int \<lfloor>x\<rfloor>)"
| "Math_floor NaN = NaN"

fun Math_ceil :: "number \<Rightarrow> number" where
  "Math_ceil (Num x) = Num (of_int \<lceil>x\<rceil>)"
| "Math_ceil NaN = NaN"

fun Math_sqrt :: "number \<Rightarrow> number" where
  "Math_sqrt (Num x) = (if 0 \<le> x then Num (sqrt x) else NaN)"
| "Math_sqrt NaN = NaN"

text \<open>
  \<open>Math.pow(b, e)\<close>: any base to the power zero is one, also \<open>NaN\<close>; a positive base
  takes every exponent; zero takes positive exponents; a negative base takes integer
  exponents only.
\<close>

fun Math_pow :: "number \<Rightarrow> number \<Rightarrow> number" where
  "Math_pow b NaN = NaN"
| "Math_pow b (Num e) =
     (if e = 0 then Num 1
      else case b of
        NaN \<Rightarrow> NaN
      | Num r \<Rightarrow>
          if 0 < r then Num (r powr e)
          else if r = 0 then (if 0 < e then Num 0 else NaN)
          else if e = of_int \<lfloor>e\<rfloor> then Num (power_int r \<lfloor>e\<rfloor>)
          else NaN)"

text \<open>
  The source throws plain \<open>Error\<close> objects that differ in their message only; each
  message is a constructor here.
  \<^item> \<open>LogDomainError\<close>: \<open>'Log scale domain must be positive'\<close>
  \<^item> \<open>NotImplemented\<close>: \<open>'Method must be implemented by subclass'\<close>
  \<^item> \<open>PeriodError name\<close>: \<open>'<name> period must be a positive integer'\<close>
  \<^item> \<open>DeviationsError\<close>: \<open>'Bollinger Bands deviations must be positive'\<close>
  \<^item> \<open>InvalidValue i field\<close>: \<open>'Invalid value at index <i> for field <field>'\<close>
  \<^item> \<open>Unsupported name\<close>: \<open>'Unsupported indicator: <name>'\<close>
  \<^item> \<open>TypeError\<close>: the engine's error on reading a property of \<open>undefined\<close>
\<close>

datatype error =
    LogDomainError
  | NotImplemented
  | PeriodError string
  | DeviationsError
  | InvalidValue nat string
  | Unsupported string
  | TypeError

section \<open>Scales (core/Scale.js)\<close>

text \<open>
  A scale object holds a domain pair and a range pair; \<open>setDomain\<close> and \<open>setRange\<close>
  of the base class replace a pair in full and return the scale. A log scale has a base
  as well, which the record extension \<open>LogScale\<close> adds.
\<close>

record Scale =
  domain :: "real \<times> real"
  range_pair :: "real \<times> real"

record LogScale = Scale +
  base :: real

definition new_Scale :: "real \<times> real \<Rightarrow> real \<times> real \<Rightarrow> Scale" where
  "new_Scale d r = \<lparr>domain = d, range_pair = r\<rparr>"

definition setDomain :: "('a Scale_scheme) \<Rightarrow> real \<times> real \<Rightarrow> 'a Scale_scheme" where
  "setDomain s d = s\<lparr>domain := d\<rparr>"

definition setRange :: "('a Scale_scheme) \<Rightarrow> real \<times> real \<Rightarrow> 'a Scale_scheme" where
  "setRange s r = s\<lparr>range_pair := r\<rparr>"

text \<open>The two methods of the base class only throw.\<close>

definition Scale_scale :: "Scale \<Rightarrow> number \<Rightarrow> error + number" where
  "Scale_scale s v = Inl NotImplemented"

definition Scale_invert :: "Scale \<Rightarrow> number \<Rightarrow> error + number" where
  "Scale_invert s v = Inl NotImplemented"

subsection \<open>LinearScale\<close>

definition LinearScale_scale :: "Scale \<Rightarrow> number \<Rightarrow> number" where
  "LinearScale_scale s v =
     (let (d0, d1) = domain s; (r0, r1) = range_pair s in
      if d0 = d1 then Num r0
      else Num r0 + (v - Num d0) * (Num r1 - Num r0) / (Num d1 - Num d0))"

definition LinearScale_invert :: "Scale \<Rightarrow> number \<Rightarrow> number" where
  "LinearScale_invert s v =
     (let (d0, d1) = domain s; (r0, r1) = range_pair s in
      if r0 = r1 then Num d0
      else Num d0 + (v - Num r0) * (Num d1 - Num d0) / (Num r1 - Num r0))"

subsection \<open>TimeScale\<close>

text \<open>
  A time scale is a linear scale over epoch milliseconds: \<open>scale\<close> takes the
  milliseconds of a date, or a number as it is, and \<open>invert\<close> wraps the milliseconds
  it gets in a date. A date is held as its time value. \<open>new Date(ms)\<close> clips the
  time value: beyond 8.64e15 milliseconds on either side the date is invalid (its time
  value is \<open>NaN\<close>), and a fraction of a millisecond is cut off towards zero.
\<close>

fun new_Date :: "number \<Rightarrow> number" where
  "new_Date (Num t) =
     (if 8640000000000000 < \<bar>t\<bar> then NaN
      else Num (of_int (if 0 \<le> t then \<lfloor>t\<rfloor> else \<lceil>t\<rceil>)))"
| "new_Date NaN = NaN"

definition TimeScale_scale :: "Scale \<Rightarrow> number \<Rightarrow> number" where
  "TimeScale_scale s v = (let timestamp = v in LinearScale_scale s timestamp)"

definition TimeScale_invert :: "Scale \<Rightarrow> number \<Rightarrow> number" where
  "TimeScale_invert s v = (let timestamp = LinearScale_invert s v in new_Date timestamp)"

subsection \<open>LogScale\<close>

text \<open>
  The constructor stores the base and the two closures \<open>log\<close> and \<open>pow\<close> over it; it
  checks nothing.
\<close>

definition new_LogScale :: "real \<times> real \<Rightarrow> real \<times> real \<Rightarrow> real option \<Rightarrow> LogScale" where
  "new_LogScale d r b =
     \<lparr>domain = d, range_pair = r, base = (case b of None \<Rightarrow> 10 | Some x \<Rightarrow> x)\<rparr>"

definition LogScale_log :: "LogScale \<Rightarrow> number \<Rightarrow> number" where
  "LogScale_log s v = Math_log v / Math_log (Num (base s))"

definition LogScale_pow :: "LogScale \<Rightarrow> number \<Rightarrow> number" where
  "LogScale_pow s v = Math_pow (Num (base s)) v"

definition LogScale_scale :: "LogScale \<Rightarrow> number \<Rightarrow> error + number" where
  "LogScale_scale s v =
     (let (d0, d1) = domain s; (r0, r1) = range_pair s in
      if v \<le> Num 0 then Inl LogDomainError
      else if d0 = d1 then Inr (Num r0)
      else Inr (Num r0 + (LogScale_log s v - LogScale_log s (Num d0)) * (Num r1 - Num r0)
                  / (LogScale_log s (Num d1) - LogScale_log s (Num d0))))"

definition LogScale_invert :: "LogScale \<Rightarrow> number \<Rightarrow> number" where
  "LogScale_invert s v =
     (let (d0, d1) = domain s; (r0, r1) = range_pair s in
      if r0 = r1 then Num d0
      else LogScale_pow s (LogScale_log s (Num d0)
             + (v - Num r0) * (LogScale_log s (Num d1) - LogScale_log s (Num d0))
               / (Num r1 - Num r0)))"

text \<open>
  A call on a log scale, with its receiver, and what a call gives back: the constructor
  and the two setters return the scale, \<open>scale\<close> and \<open>invert\<close> return a number. A
  call that throws is \<open>Inl\<close> of the error.
\<close>

datatype LogScale_call =
    Call_new "real \<times> real" "real \<times> real" "real option"
  | Call_setDomain LogScale "real \<times> real"
  | Call_setRange LogScale "real \<times> real"
  | Call_scale LogScale number
  | Call_invert LogScale number

datatype LogScale_returned = Returned_scale LogScale | Returned_number number

fun LogScale_run :: "LogScale_call \<Rightarrow> error + LogScale_returned" where
  "LogScale_run (Call_new d r b) = Inr (Returned_scale (new_LogScale d r b))"
| "LogScale_run (Call_setDomain s d) = Inr (Returned_scale (setDomain s d))"
| "LogScale_run (Call_setRange s r) = Inr (Returned_scale (setRange s r))"
| "LogScale_run (Call_scale s v) =
     (case LogScale_scale s v of Inl e \<Rightarrow> Inl e | Inr y \<Rightarrow> Inr (Returned_number y))"
| "LogScale_run (Call_invert s v) = Inr (Returned_number (LogScale_invert s v))"

text \<open>The calls that ask \<open>scale\<close> for a value that is zero or negative.\<close>

fun scales_nonpositive :: "LogScale_call \<Rightarrow> bool" where
  "scales_nonpositive (Call_scale s v) = (v \<le> Num 0)"
| "scales_nonpositive _ = False"

subsection \<open>createNiceDomain\<close>

definition createNiceDomain :: "real \<Rightarrow> real \<Rightarrow> real option \<Rightarrow> number \<times> number" where
  "createNiceDomain minv maxv count_arg =
     (let count = (case count_arg of None \<Rightarrow> 5 | Some c \<Rightarrow> c) in
      if minv = maxv then (Num (minv - 1), Num (maxv + 1))
      else
        let range = Num (maxv - minv);
            step = Math_pow (Num 10) (Math_floor (Math_log10 (range / Num count)));
            ratio = range / (Num count * step);
            step = (if Num 5 \<le> ratio then step * Num 5
                    else if Num 2 \<le> ratio then step * Num 2
                    else step);
            niceMin = Math_floor (Num minv / step) * step;
            niceMax = Math_ceil (Num maxv / step) * step
        in (niceMin, niceMax))"

section \<open>Technical indicators (components/Tooltip.js)\<close>

text \<open>
  A data point is an object with named numeric fields: a map from field names to reals,
  where a field that is absent reads as \<open>undefined\<close>. Temporal fields are carried as
  their epoch milliseconds. The points an indicator emits hold JavaScript numbers, so a
  field of them can be \<open>NaN\<close>.
\<close>

type_synonym datapoint = "string \<rightharpoonup> real"

type_synonym outpoint = "string \<rightharpoonup> number"

text \<open>
  The parameter object of an indicator; a field that the caller left out is \<open>None\<close>
  and takes its default in the destructuring pattern of each indicator.
\<close>

record params =
  period :: "number option"
  valueField :: "string option"
  xField :: "string option"
  deviations :: "number option"
  fastPeriod :: "number option"
  slowPeriod :: "number option"
  signalPeriod :: "number option"

definition default_to :: "'a \<Rightarrow> 'a option \<Rightarrow> 'a" where
  "default_to d v = (case v of None \<Rightarrow> d | Some x \<Rightarrow> x)"

fun Number_isInteger :: "number \<Rightarrow> bool" where
  "Number_isInteger (Num r) = (r = of_int \<lfloor>r\<rfloor>)"
| "Number_isInteger NaN = False"

text \<open>The check \<open>period <= 0 || !Number.isInteger(period)\<close> that every indicator makes.\<close>

definition invalid_period :: "number \<Rightarrow> bool" where
  "invalid_period p = (p \<le> Num 0 \<or> \<not> Number_isInteger p)"

text \<open>A period that passed the check is a positive integer; it bounds every index loop.\<close>

fun count_of :: "number \<Rightarrow> nat" where
  "count_of (Num r) = nat \<lfloor>r\<rfloor>"
| "count_of NaN = 0"

text \<open>
  What arithmetic sees when it is handed a field: \<open>undefined\<close> converts to \<open>NaN\<close>,
  \<open>null\<close> converts to zero.
\<close>

definition field_number :: "real option \<Rightarrow> number" where
  "field_number v = (case v of None \<Rightarrow> NaN | Some r \<Rightarrow> Num r)"

definition out_number :: "number option \<Rightarrow> number" where
  "out_number v = (case v of None \<Rightarrow> NaN | Some n \<Rightarrow> n)"

definition of_null :: "number option \<Rightarrow> number" where
  "of_null v = (case v of None \<Rightarrow> Num 0 | Some n \<Rightarrow> n)"

text \<open>
  \<open>data[k][field]\<close> with a computed index \<open>k\<close>: outside the array the element is
  \<open>undefined\<close> and reading its field is a \<open>TypeError\<close>.
\<close>

definition get_field :: "datapoint list \<Rightarrow> int \<Rightarrow> string \<Rightarrow> error + real option" where
  "get_field data k f =
     (if 0 \<le> k \<and> k < int (length data) then Inr ((data ! nat k) f) else Inl TypeError)"

subsection \<open>calculateSMA\<close>

text \<open>The inner loop over \<open>j\<close>: it throws at the first window value that is not a number.\<close>

function SMA_sum :: "datapoint list \<Rightarrow> string \<Rightarrow> nat \<Rightarrow> nat \<Rightarrow> nat \<Rightarrow> real \<Rightarrow> error + real" where
  "SMA_sum data vf i p j sumv =
     (if j < p then
        (case get_field data (int i - int j) vf of
           Inl e \<Rightarrow> Inl e
         | Inr None \<Rightarrow> Inl (InvalidValue (i - j) vf)
         | Inr (Some v) \<Rightarrow> SMA_sum data vf i p (j + 1) (sumv + v))
      else Inr sumv)"
  by pat_completeness auto
termination
  by (relation "measure (\<lambda>(data, vf, i, p, j, sumv). p - j)") auto

declare SMA_sum.simps [simp del]

definition SMA_point :: "string \<Rightarrow> string \<Rightarrow> datapoint \<Rightarrow> number \<Rightarrow> outpoint" where
  "SMA_point xf vf d sma =
     ((Map.empty(xf := map_option Num (d xf)))(vf \<mapsto> sma))(''original'' := map_option Num (d vf))"

function SMA_loop ::
  "datapoint list \<Rightarrow> string \<Rightarrow> string \<Rightarrow> nat \<Rightarrow> nat \<Rightarrow> outpoint list \<Rightarrow> error + outpoint list" where
  "SMA_loop data vf xf p i result =
     (if i < length data then
        (if int i < int p - 1 then SMA_loop data vf xf p (i + 1) result
         else
           (case SMA_sum data vf i p 0 0 of
              Inl e \<Rightarrow> Inl e
            | Inr sumv \<Rightarrow>
                SMA_loop data vf xf p (i + 1)
                  (result @ [SMA_point xf vf (data ! i) (Num sumv / Num (real p))])))
      else Inr result)"
  by pat_completeness auto
termination
  by (relation "measure (\<lambda>(data, vf, xf, p, i, result). length data - i)") auto

declare SMA_loop.simps [simp del]

definition calculateSMA :: "datapoint list \<Rightarrow> params \<Rightarrow> error + outpoint list" where
  "calculateSMA data ps =
     (let period = default_to (Num 14) (period ps);
          valueField = default_to ''y'' (valueField ps);
          xField = default_to ''x'' (xField ps)
      in if invalid_period period then Inl (PeriodError ''SMA'')
         else SMA_loop data valueField xField (count_of period) 0 [])"

subsection \<open>calculateEMA\<close>

text \<open>The seed sums the window without looking at the type of the values.\<close>

function window_sum :: "datapoint list \<Rightarrow> string \<Rightarrow> nat \<Rightarrow> nat \<Rightarrow> nat \<Rightarrow> number \<Rightarrow> error + number" where
  "window_sum data vf i p j sumv =
     (if j < p then
        (case get_field data (int i - int j) vf of
           Inl e \<Rightarrow> Inl e
         | Inr v \<Rightarrow> window_sum data vf i p (j + 1) (sumv + field_number v))
      else Inr sumv)"
  by pat_completeness auto
termination
  by (relation "measure (\<lambda>(data, vf, i, p, j, sumv). p - j)") auto

declare window_sum.simps [simp del]

definition EMA_point :: "string \<Rightarrow> string \<Rightarrow> datapoint \<Rightarrow> number \<Rightarrow> outpoint" where
  "EMA_point xf vf d ema =
     ((Map.empty(xf := map_option Num (d xf)))(vf \<mapsto> ema))(''original'' := map_option Num (d vf))"

text \<open>
  One step of the exponential average, \<open>(value - ema) * multiplier + ema\<close>; \<open>ema\<close> is
  \<open>null\<close> until the seed has been computed.
\<close>

definition EMA_step :: "number \<Rightarrow> number option \<Rightarrow> number \<Rightarrow> number" where
  "EMA_step v ema multiplier = (v - of_null ema) * multiplier + of_null ema"

function EMA_loop ::
  "datapoint list \<Rightarrow> string \<Rightarrow> string \<Rightarrow> nat \<Rightarrow> number \<Rightarrow> nat \<Rightarrow> number option \<Rightarrow> outpoint list
     \<Rightarrow> error + outpoint list" where
  "EMA_loop data vf xf p multiplier i ema result =
     (if i < length data then
        (if int i < int p - 1 then EMA_loop data vf xf p multiplier (i + 1) ema result
         else if int i = int p - 1 then
           (case window_sum data vf i p 0 (Num 0) of
              Inl e \<Rightarrow> Inl e
            | Inr sumv \<Rightarrow>
                (let ema' = sumv / Num (real p)
                 in EMA_loop data vf xf p multiplier (i + 1) (Some ema')
                      (result @ [EMA_point xf vf (data ! i) ema'])))
         else
           (let ema' = EMA_step (field_number ((data ! i) vf)) ema multiplier
            in EMA_loop data vf xf p multiplier (i + 1) (Some ema')
                 (result @ [EMA_point xf vf (data ! i) ema'])))
      else Inr result)"
  by pat_completeness auto
termination
  by (relation "measure (\<lambda>(data, vf, xf, p, multiplier, i, ema, result). length data - i)") auto

declare EMA_loop.simps [simp del]

definition calculateEMA :: "datapoint list \<Rightarrow> params \<Rightarrow> error + outpoint list" where
  "calculateEMA data ps =
     (let period = default_to (Num 14) (period ps);
          valueField = default_to ''y'' (valueField ps);
          xField = default_to ''x'' (xField ps)
      in if invalid_period period then Inl (PeriodError ''EMA'')
         else
           (let multiplier = Num 2 / (period + Num 1)
            in EMA_loop data valueField xField (count_of period) multiplier 0 None []))"

subsection \<open>calculateBollingerBands\<close>

function squared_deviations ::
  "datapoint list \<Rightarrow> string \<Rightarrow> nat \<Rightarrow> nat \<Rightarrow> number \<Rightarrow> nat \<Rightarrow> number \<Rightarrow> error + number" where
  "squared_deviations data vf i p sma j sumSquaredDeviations =
     (if j < p then
        (case get_field data (int i - int j) vf of
           Inl e \<Rightarrow> Inl e
         | Inr v \<Rightarrow>
             (let deviation = field_number v - sma
              in squared_deviations data vf i p sma (j + 1)
                   (sumSquaredDeviations + deviation * deviation)))
      else Inr sumSquaredDeviations)"
  by pat_completeness auto
termination
  by (relation "measure (\<lambda>(data, vf, i, p, sma, j, s). p - j)") auto

declare squared_deviations.simps [simp del]

definition Bollinger_point ::
  "string \<Rightarrow> string \<Rightarrow> datapoint \<Rightarrow> number \<Rightarrow> number \<Rightarrow> number \<Rightarrow> outpoint" where
  "Bollinger_point xf vf d sma upperBand lowerBand =
     ((((Map.empty(xf := map_option Num (d xf)))(''middle'' \<mapsto> sma))(''upper'' \<mapsto> upperBand))
        (''lower'' \<mapsto> lowerBand))(''original'' := map_option Num (d vf))"

function Bollinger_loop ::
  "datapoint list \<Rightarrow> string \<Rightarrow> string \<Rightarrow> nat \<Rightarrow> number \<Rightarrow> nat \<Rightarrow> outpoint list
     \<Rightarrow> error + outpoint list" where
  "Bollinger_loop data vf xf p devs i result =
     (if i < length data then
        (if int i < int p - 1 then Bollinger_loop data vf xf p devs (i + 1) result
         else
           (case window_sum data vf i p 0 (Num 0) of
              Inl e \<Rightarrow> Inl e
            | Inr sumv \<Rightarrow>
                (let sma = sumv / Num (real p) in
                 case squared_deviations data vf i p sma 0 (Num 0) of
                   Inl e \<Rightarrow> Inl e
                 | Inr sumSquaredDeviations \<Rightarrow>
                     (let stdDev = Math_sqrt (sumSquaredDeviations / Num (real p));
                          upperBand = sma + (stdDev * devs);
                          lowerBand = sma - (stdDev * devs)
                      in Bollinger_loop data vf xf p devs (i + 1)
                           (result @ [Bollinger_point xf vf (data ! i) sma upperBand lowerBand])))))
      else Inr result)"
  by pat_completeness auto
termination
  by (relation "measure (\<lambda>(data, vf, xf, p, devs, i, result). length data - i)") auto

declare Bollinger_loop.simps [simp del]

definition calculateBollingerBands :: "datapoint list \<Rightarrow> params \<Rightarrow> error + outpoint list" where
  "calculateBollingerBands data ps =
     (let period = default_to (Num 20) (period ps);
          devs = default_to (Num 2) (deviations ps);
          valueField = default_to ''y'' (valueField ps);
          xField = default_to ''x'' (xField ps)
      in if invalid_period period then Inl (PeriodError ''Bollinger Bands'')
         else if devs \<le> Num 0 then Inl DeviationsError
         else Bollinger_loop data valueField xField (count_of period) devs 0 [])"

subsection \<open>calculateRSI\<close>

definition RSI_value :: "number \<Rightarrow> number \<Rightarrow> number" where
  "RSI_value avgGain avgLoss =
     (if strict_eq avgLoss (Num 0) then Num 100
      else (let rs = avgGain / avgLoss in Num 100 - (Num 100 / (Num 1 + rs))))"

definition RSI_point ::
  "string \<Rightarrow> string \<Rightarrow> datapoint \<Rightarrow> number \<Rightarrow> number \<Rightarrow> outpoint" where
  "RSI_point xf vf d avgGain avgLoss =
     ((((Map.empty(xf := map_option Num (d xf)))(''rsi'' \<mapsto> RSI_value avgGain avgLoss))
         (''avgGain'' \<mapsto> avgGain))(''avgLoss'' \<mapsto> avgLoss))(''original'' := map_option Num (d vf))"

text \<open>
  The loop keeps the running sums \<open>gains\<close> and \<open>losses\<close> of the first \<open>period\<close>
  changes; after the seed it reads the previous averages back from the last point it
  pushed.
\<close>

function RSI_loop ::
  "datapoint list \<Rightarrow> string \<Rightarrow> string \<Rightarrow> nat \<Rightarrow> nat \<Rightarrow> number \<Rightarrow> number \<Rightarrow> outpoint list
     \<Rightarrow> error + outpoint list" where
  "RSI_loop data vf xf p i gains losses result =
     (if i < length data then
        (if i = 0 then RSI_loop data vf xf p (i + 1) gains losses result
         else
           (case get_field data (int i - 1) vf of
              Inl e \<Rightarrow> Inl e
            | Inr previous \<Rightarrow>
                (let currentValue = field_number ((data ! i) vf);
                     previousValue = field_number previous;
                     change = currentValue - previousValue
                 in if i \<le> p then
                      (let gains' = (if Num 0 \<le> change then gains + change else gains);
                           losses' = (if Num 0 \<le> change then losses else losses - change)
                       in if i < p then RSI_loop data vf xf p (i + 1) gains' losses' result
                          else
                            (let avgGain = gains' / Num (real p);
                                 avgLoss = losses' / Num (real p)
                             in RSI_loop data vf xf p (i + 1) gains' losses'
                                  (result @ [RSI_point xf vf (data ! i) avgGain avgLoss])))
                    else
                      (case result of
                         [] \<Rightarrow> Inl TypeError
                       | _ # _ \<Rightarrow>
                           (let previousAvgGain = out_number ((last result) ''avgGain'');
                                previousAvgLoss = out_number ((last result) ''avgLoss'');
                                currentGain = (if Num 0 \<le> change then change else Num 0);
                                currentLoss = (if change < Num 0 then - change else Num 0);
                                avgGain = ((previousAvgGain * (Num (real p) - Num 1)) + currentGain)
                                            / Num (real p);
                                avgLoss = ((previousAvgLoss * (Num (real p) - Num 1)) + currentLoss)
                                            / Num (real p)
                            in RSI_loop data vf xf p (i + 1) gains losses
                                 (result @ [RSI_point xf vf (data ! i) avgGain avgLoss]))))))
      else Inr result)"
  by pat_completeness auto
termination
  by (relation "measure (\<lambda>(data, vf, xf, p, i, gains, losses, result). length data - i)") auto

declare RSI_loop.simps [simp del]

definition calculateRSI :: "datapoint list \<Rightarrow> params \<Rightarrow> error + outpoint list" where
  "calculateRSI data ps =
     (let period = default_to (Num 14) (period ps);
          valueField = default_to ''y'' (valueField ps);
          xField = default_to ''x'' (xField ps)
      in if invalid_period period then Inl (PeriodError ''RSI'')
         else RSI_loop data valueField xField (count_of period) 0 (Num 0) (Num 0) [])"

subsection \<open>calculateMACD\<close>

text \<open>
  The arrays \<open>fastEMAs\<close>, \<open>slowEMAs\<close>, \<open>macdLine\<close> and \<open>signalLine\<close> are filled
  with \<open>null\<close> and written by index; \<open>None\<close> is \<open>null\<close>. The first loop advances the
  fast and the slow average by the same three-way branch, which is written once here:
  it returns the new running average and the updated array.
\<close>

definition MACD_track ::
  "datapoint list \<Rightarrow> string \<Rightarrow> nat \<Rightarrow> number \<Rightarrow> nat \<Rightarrow> number option \<times> number option list
     \<Rightarrow> error + (number option \<times> number option list)" where
  "MACD_track data vf p multiplier i st =
     (let (ema, emas) = st in
      if int i < int p - 1 then Inr (ema, emas)
      else if int i = int p - 1 then
        (case window_sum data vf i p 0 (Num 0) of
           Inl e \<Rightarrow> Inl e
         | Inr sumv \<Rightarrow> (let ema' = sumv / Num (real p) in Inr (Some ema', emas[i := Some ema'])))
      else
        (let ema' = EMA_step (field_number ((data ! i) vf)) ema multiplier
         in Inr (Some ema', emas[i := Some ema'])))"

function MACD_emas ::
  "datapoint list \<Rightarrow> string \<Rightarrow> nat \<Rightarrow> number \<Rightarrow> nat \<Rightarrow> number \<Rightarrow> nat
     \<Rightarrow> number option \<times> number option list \<Rightarrow> number option \<times> number option list
     \<Rightarrow> error + (number option list \<times> number option list)" where
  "MACD_emas data vf fp fastMultiplier sp slowMultiplier i fast slow =
     (if i < length data then
        (case MACD_track data vf fp fastMultiplier i fast of
           Inl e \<Rightarrow> Inl e
         | Inr fast' \<Rightarrow>
             (case MACD_track data vf sp slowMultiplier i slow of
                Inl e \<Rightarrow> Inl e
              | Inr slow' \<Rightarrow> MACD_emas data vf fp fastMultiplier sp slowMultiplier (i + 1) fast' slow'))
      else Inr (snd fast, snd slow))"
  by pat_completeness auto
termination
  by (relation "measure (\<lambda>(data, vf, fp, fm, sp, sm, i, fast, slow). length data - i)") auto

declare MACD_emas.simps [simp del]

definition MACD_line :: "nat \<Rightarrow> nat \<Rightarrow> number option list \<Rightarrow> number option list \<Rightarrow> number option list" where
  "MACD_line n sp fastEMAs slowEMAs =
     map (\<lambda>i. if int i < int sp - 1 \<or> fastEMAs ! i = None \<or> slowEMAs ! i = None then None
               else Some (of_null (fastEMAs ! i) - of_null (slowEMAs ! i)))
       [0..<n]"

text \<open>The seed of the signal line: the mean of the entries of the window that are not \<open>null\<close>.\<close>

function MACD_seed :: "number option list \<Rightarrow> nat \<Rightarrow> nat \<Rightarrow> nat \<Rightarrow> number \<Rightarrow> nat \<Rightarrow> number option" where
  "MACD_seed macdLine i gp j sumv count =
     (if j < gp then
        (if 0 \<le> int i - int j \<and> macdLine ! (i - j) \<noteq> None
         then MACD_seed macdLine i gp (j + 1) (sumv + of_null (macdLine ! (i - j))) (count + 1)
         else MACD_seed macdLine i gp (j + 1) sumv count)
      else (if 0 < count then Some (sumv / Num (real count)) else None))"
  by pat_completeness auto
termination
  by (relation "measure (\<lambda>(macdLine, i, gp, j, sumv, count). gp - j)") auto

declare MACD_seed.simps [simp del]

function MACD_signal ::
  "number option list \<Rightarrow> nat \<Rightarrow> nat \<Rightarrow> number \<Rightarrow> nat \<Rightarrow> number option \<Rightarrow> number option list
     \<Rightarrow> number option list" where
  "MACD_signal macdLine sp gp signalMultiplier i signalEMA signalLine =
     (if i < length macdLine then
        (if int i < int sp + int gp - 2 \<or> macdLine ! i = None
         then MACD_signal macdLine sp gp signalMultiplier (i + 1) signalEMA signalLine
         else if int i = int sp + int gp - 2 then
           (let signalEMA' = MACD_seed macdLine i gp 0 (Num 0) 0
            in MACD_signal macdLine sp gp signalMultiplier (i + 1) signalEMA'
                 (signalLine[i := signalEMA']))
         else if signalEMA \<noteq> None then
           (let signalEMA' = EMA_step (of_null (macdLine ! i)) signalEMA signalMultiplier
            in MACD_signal macdLine sp gp signalMultiplier (i + 1) (Some signalEMA')
                 (signalLine[i := Some signalEMA']))
         else MACD_signal macdLine sp gp signalMultiplier (i + 1) signalEMA signalLine)
      else signalLine)"
  by pat_completeness auto
termination
  by (relation "measure (\<lambda>(macdLine, sp, gp, m, i, e, l). length macdLine - i)") auto

declare MACD_signal.simps [simp del]

definition MACD_point ::
  "string \<Rightarrow> string \<Rightarrow> datapoint \<Rightarrow> number \<Rightarrow> number \<Rightarrow> outpoint" where
  "MACD_point xf vf d macd signal =
     ((((Map.empty(xf := map_option Num (d xf)))(''macd'' \<mapsto> macd))(''signal'' \<mapsto> signal))
        (''histogram'' \<mapsto> macd - signal))(''original'' := map_option Num (d vf))"

definition MACD_result ::
  "datapoint list \<Rightarrow> string \<Rightarrow> string \<Rightarrow> number option list \<Rightarrow> number option list \<Rightarrow> outpoint list" where
  "MACD_result data vf xf macdLine signalLine =
     concat (map (\<lambda>i. case (macdLine ! i, signalLine ! i) of
                        (Some m, Some g) \<Rightarrow> [MACD_point xf vf (data ! i) m g]
                      | _ \<Rightarrow> [])
               [0..<length data])"

definition calculateMACD :: "datapoint list \<Rightarrow> params \<Rightarrow> error + outpoint list" where
  "calculateMACD data ps =
     (let fastP = default_to (Num 12) (fastPeriod ps);
          slowP = default_to (Num 26) (slowPeriod ps);
          signalP = default_to (Num 9) (signalPeriod ps);
          valueField = default_to ''y'' (valueField ps);
          xField = default_to ''x'' (xField ps)
      in if invalid_period fastP then Inl (PeriodError ''MACD fast'')
         else if invalid_period slowP then Inl (PeriodError ''MACD slow'')
         else if invalid_period signalP then Inl (PeriodError ''MACD signal'')
         else
           (let n = length data;
                fastMultiplier = Num 2 / (fastP + Num 1);
                slowMultiplier = Num 2 / (slowP + Num 1);
                nulls = replicate n None
            in case MACD_emas data valueField (count_of fastP) fastMultiplier
                      (count_of slowP) slowMultiplier 0 (None, nulls) (None, nulls) of
                 Inl e \<Rightarrow> Inl e
               | Inr (fastEMAs, slowEMAs) \<Rightarrow>
                   (let macdLine = MACD_line n (count_of slowP) fastEMAs slowEMAs;
                        signalMultiplier = Num 2 / (signalP + Num 1);
                        signalLine = MACD_signal macdLine (count_of slowP) (count_of signalP)
                                       signalMultiplier 0 None nulls
                    in Inr (MACD_result data valueField xField macdLine signalLine))))"

subsection \<open>calculateIndicator\<close>

text \<open>
  The \<open>data\<close> argument can be anything: \<open>null\<close>, \<open>undefined\<close>, some other value that
  is not an array, or an array of points.
\<close>

datatype data_arg = Data_null | Data_undefined | Data_other | Data_array "datapoint list"

text \<open>\<open>toLowerCase\<close> on the ASCII letters, which is all the \<open>switch\<close> labels can match.\<close>

definition toLowerCase :: "string \<Rightarrow> string" where
  "toLowerCase str =
     map (\<lambda>c. let n = (of_char c :: nat) in if 65 \<le> n \<and> n \<le> 90 then char_of (n + 32) else c) str"

definition calculateIndicator :: "string \<Rightarrow> data_arg \<Rightarrow> params \<Rightarrow> error + outpoint list" where
  "calculateIndicator indicator data ps =
     (case data of
        Data_null \<Rightarrow> Inr []
      | Data_undefined \<Rightarrow> Inr []
      | Data_other \<Rightarrow> Inr []
      | Data_array points \<Rightarrow>
          if length points = 0 then Inr []
          else
            (let name = toLowerCase indicator in
             if name = ''sma'' then calculateSMA points ps
             else if name = ''ema'' then calculateEMA points ps
             else if name = ''bollinger'' then calculateBollingerBands points ps
             else if name = ''rsi'' then calculateRSI points ps
             else if name = ''macd'' then calculateMACD points ps
             else Inl (Unsupported indicator)))"

subsection \<open>Reference values for the indicators\<close>

text \<open>The arithmetic mean of the \<open>p\<close> values that end at index \<open>i\<close>.\<close>

definition trailing_mean :: "datapoint list \<Rightarrow> string \<Rightarrow> nat \<Rightarrow> nat \<Rightarrow> real" where
  "trailing_mean data vf p i = (\<Sum>j = 0..<p. the ((data ! (i - j)) vf)) / real p"

definition series_example :: "datapoint list" where
  "series_example = [[''x'' \<mapsto> 0, ''y'' \<mapsto> 10], [''x'' \<mapsto> 1, ''y'' \<mapsto> 12],
     [''x'' \<mapsto> 2, ''y'' \<mapsto> 9], [''x'' \<mapsto> 3, ''y'' \<mapsto> 15]]"

definition no_params :: params where
  "no_params = \<lparr>period = None, valueField = None, xField = None, deviations = None,
     fastPeriod = None, slowPeriod = None, signalPeriod = None\<rparr>"











subsection \<open>Reference values for the nice domain\<close>

text \<open>
  The step of the nice domain in the words of the specification: the power of ten below
  \<open>(max - min) / count\<close>, multiplied by 5 or by 2 when the ratio of the raw step to it
  reaches 5 or 2.
\<close>

definition nice_step :: "real \<Rightarrow> real \<Rightarrow> real \<Rightarrow> real" where
  "nice_step minv maxv c =
     (let s0 = 10 powr of_int \<lfloor>log 10 ((maxv - minv) / c)\<rfloor>;
          ratio = (maxv - minv) / (c * s0)
      in if 5 \<le> ratio then s0 * 5 else if 2 \<le> ratio then s0 * 2 else s0)"

section \<open>Stacked series (AreaChart.createStackedData)\<close>











section \<open>Monotone cubic path (generateMonotonePath)\<close>

text \<open>
  The path is built as a list of strings joined by spaces; each string is one command:
  \<open>M x,y\<close>, \<open>L x,y\<close> or \<open>C cp1x,cp1y cp2x,cp2y x,y\<close>. The embedding keeps the
  list of commands with their numbers. The points are pairs of coordinates that the
  scales have produced already.
\<close>

datatype path_command =
    MoveTo number number
  | LineTo number number
  | CurveTo number number number number number number

definition linePathDefinition :: "(real \<times> real) list \<Rightarrow> path_command list" where
  "linePathDefinition points =
     (case points of
        [] \<Rightarrow> []
      | (firstX, firstY) # restPoints \<Rightarrow>
          MoveTo (Num firstX) (Num firstY) # map (\<lambda>(x, y). LineTo (Num x) (Num y)) restPoints)"

text \<open>
  The array \<open>tangents\<close> is created with \<open>n\<close> empty slots and written in place by
  three passes: the slope of each segment, the copy of the last slope into the last slot,
  and the pass over the interior points, which reads \<open>tangents[i - 1]\<close> and
  \<open>tangents[i]\<close> as they are at that moment.
\<close>

function initial_slopes :: "(real \<times> real) list \<Rightarrow> nat \<Rightarrow> number list \<Rightarrow> number list" where
  "initial_slopes points i tangents =
     (if int i < int (length points) - 1
      then initial_slopes points (i + 1)
             (tangents[i := (Num (snd (points ! (i + 1))) - Num (snd (points ! i)))
                            / (Num (fst (points ! (i + 1))) - Num (fst (points ! i)))])
      else tangents)"
  by pat_completeness auto
termination
  by (relation "measure (\<lambda>(points, i, tangents). length points - i)") auto

declare initial_slopes.simps [simp del]

function interior_tangents :: "nat \<Rightarrow> nat \<Rightarrow> number list \<Rightarrow> number list" where
  "interior_tangents n i tangents =
     (if int i < int n - 1
      then interior_tangents n (i + 1)
             (if tangents ! (i - 1) * tangents ! i \<le> Num 0 then tangents[i := Num 0]
              else (let a = tangents ! (i - 1); b = tangents ! i
                    in tangents[i := (a * b) / (a + b)]))
      else tangents)"
  by pat_completeness auto
termination
  by (relation "measure (\<lambda>(n, i, tangents). n - i)") auto

declare interior_tangents.simps [simp del]

definition monotone_tangents :: "(real \<times> real) list \<Rightarrow> number list" where
  "monotone_tangents points =
     (let n = length points;
          tangents = initial_slopes points 0 (replicate n NaN);
          tangents = tangents[n - 1 := tangents ! (n - 2)]
      in interior_tangents n 1 tangents)"

function curve_segments ::
  "(real \<times> real) list \<Rightarrow> number list \<Rightarrow> nat \<Rightarrow> path_command list \<Rightarrow> path_command list" where
  "curve_segments points tangents i pathParts =
     (if int i < int (length points) - 1
      then
        (let dx = (Num (fst (points ! (i + 1))) - Num (fst (points ! i))) / Num 3;
             cp1x = Num (fst (points ! i)) + dx;
             cp1y = Num (snd (points ! i)) + dx * tangents ! i;
             cp2x = Num (fst (points ! (i + 1))) - dx;
             cp2y = Num (snd (points ! (i + 1))) - dx * tangents ! (i + 1)
         in curve_segments points tangents (i + 1)
              (pathParts @ [CurveTo cp1x cp1y cp2x cp2y
                              (Num (fst (points ! (i + 1)))) (Num (snd (points ! (i + 1))))]))
      else pathParts)"
  by pat_completeness auto
termination
  by (relation "measure (\<lambda>(points, tangents, i, pathParts). length points - i)") auto

declare curve_segments.simps [simp del]

definition generateMonotonePath :: "(real \<times> real) list \<Rightarrow> path_command list" where
  "generateMonotonePath points =
     (if length points < 3 then linePathDefinition points
      else
        (case points of
           [] \<Rightarrow> []
         | (firstX, firstY) # restPoints \<Rightarrow>
             curve_segments points (monotone_tangents points) 0
               [MoveTo (Num firstX) (Num firstY)]))"

text \<open>The harmonic mean of two slopes.\<close>

definition harmonic_mean :: "real \<Rightarrow> real \<Rightarrow> real" where
  "harmonic_mean a b = 2 * a * b / (a + b)"

section \<open>The scales in double precision\<close>

text \<open>
  The engine computes with IEEE 754 double-precision numbers: each arithmetic operation
  returns the double nearest to its exact result, a tie going to the neighbour with the
  even significand. \<open>binary64\<close> is that rounding: a number in the binade
  \<open>2^e \<le> |x| < 2^(e+1)\<close> is rounded to a multiple of \<open>2^(e-52)\<close>. The exponent is
  not bounded here, so overflow to infinity and the subnormal numbers are left out; the
  values of this development stay far from both. A numeric literal of the source, such
  as \<open>0.7\<close>, denotes the rounding of its decimal value.
\<close>

definition round_half_even :: "real \<Rightarrow> int" where
  "round_half_even y =
     (let f = \<lfloor>y\<rfloor>; r = y - of_int f in
      if r < 1 / 2 then f else if 1 / 2 < r then f + 1 else if even f then f else f + 1)"

definition binary64 :: "real \<Rightarrow> real" where
  "binary64 x =
     (if x = 0 then 0
      else
        let e = \<lfloor>log 2 \<bar>x\<bar>\<rfloor>;
            ulp = power_int 2 (e - 52)
        in of_int (round_half_even (x / ulp)) * ulp)"

fun rounded :: "number \<Rightarrow> number" where
  "rounded (Num x) = Num (binary64 x)"
| "rounded NaN = NaN"

text \<open>
  The four operators on doubles, and the two library functions that \<open>createNiceDomain\<close>
  calls, taken as correctly rounded. \<open>Math.floor\<close> and \<open>Math.ceil\<close> are exact on
  doubles.
\<close>

definition add64 :: "number \<Rightarrow> number \<Rightarrow> number" where
  "add64 a b = rounded (a + b)"

definition sub64 :: "number \<Rightarrow> number \<Rightarrow> number" where
  "sub64 a b = rounded (a - b)"

definition mul64 :: "number \<Rightarrow> number \<Rightarrow> number" where
  "mul64 a b = rounded (a * b)"

definition div64 :: "number \<Rightarrow> number \<Rightarrow> number" where
  "div64 a b = rounded (a / b)"

definition Math_log10_64 :: "number \<Rightarrow> number" where
  "Math_log10_64 x = rounded (Math_log10 x)"

definition Math_pow64 :: "number \<Rightarrow> number \<Rightarrow> number" where
  "Math_pow64 b e = rounded (Math_pow b e)"

text \<open>
  \<open>LinearScale.scale\<close> and \<open>createNiceDomain\<close> once more, operation by operation as
  the engine evaluates them: \<open>r0 + (((value - d0) * (r1 - r0)) / (d1 - d0))\<close>, with a
  rounding after each operation. The bounds and the arguments are doubles.
\<close>

definition LinearScale_scale64 :: "Scale \<Rightarrow> number \<Rightarrow> number" where
  "LinearScale_scale64 s v =
     (let (d0, d1) = domain s; (r0, r1) = range_pair s in
      if d0 = d1 then Num r0
      else add64 (Num r0)
             (div64 (mul64 (sub64 v (Num d0)) (sub64 (Num r1) (Num r0)))
                    (sub64 (Num d1) (Num d0))))"

definition createNiceDomain64 :: "real \<Rightarrow> real \<Rightarrow> real option \<Rightarrow> number \<times> number" where
  "createNiceDomain64 minv maxv count_arg =
     (let count = (case count_arg of None \<Rightarrow> 5 | Some c \<Rightarrow> c) in
      if minv = maxv then (sub64 (Num minv) (Num 1), add64 (Num maxv) (Num 1))
      else
        let range = sub64 (Num maxv) (Num minv);
            step = Math_pow64 (Num 10) (Math_floor (Math_log10_64 (div64 range (Num count))));
            ratio = div64 range (mul64 (Num count) step);
            step = (if Num 5 \<le> ratio then mul64 step (Num 5)
                    else if Num 2 \<le> ratio then mul64 step (Num 2)
                    else step);
            niceMin = mul64 (Math_floor (div64 (Num minv) step)) step;
            niceMax = mul64 (Math_ceil (div64 (Num maxv) step)) step
        in (niceMin, niceMax))"

section \<open>Properties of the scales\<close>

subsection \<open>Rounding to double precision\<close>

lemma binary64_binade:
  assumes "power_int 2 e \<le> \<bar>x\<bar>" and "\<bar>x\<bar> < power_int 2 (e + 1)"
  shows "binary64 x = of_int (round_half_even (x / power_int 2 (e - 52))) * power_int 2 (e - 52)"
proof -
  have pos: "0 < \<bar>x\<bar>"
  proof -
    have "0 < power_int (2::real) e" by simp
    then show ?thesis using assms(1) by linarith
  qed
  have p: "(2::real) powr of_int k = power_int 2 k" for k
    by (simp add: powr_real_of_int')
  have "of_int e \<le> log 2 \<bar>x\<bar>"
    using assms(1) pos by (subst le_log_iff) (simp_all add: p)
  moreover have "log 2 \<bar>x\<bar> < of_int (e + 1)"
    using assms(2) pos p [of "e + 1"] by (subst log_less_iff) simp_all
  ultimately have "\<lfloor>log 2 \<bar>x\<bar>\<rfloor> = e"
    by (simp add: floor_unique)
  then show ?thesis
    using pos by (simp add: binary64_def Let_def)
qed

lemma binary64_7_10: "binary64 (7 / 10) = 3152519739159347 / 4503599627370496"
  using binary64_binade [of "- 1" "7 / 10"] by (simp add: round_half_even_def)

lemma binary64_4_5: "binary64 (4 / 5) = 3602879701896397 / 4503599627370496"
  using binary64_binade [of "- 1" "4 / 5"] by (simp add: round_half_even_def)

lemma round_half_even_bounds:
  "real_of_int (round_half_even y) \<le> y + 1 / 2" "y - 1 / 2 \<le> real_of_int (round_half_even y)"
  "\<lfloor>y\<rfloor> \<le> round_half_even y"
proof -
  have "real_of_int \<lfloor>y\<rfloor> \<le> y" "y < real_of_int \<lfloor>y\<rfloor> + 1" by linarith+
  then show "real_of_int (round_half_even y) \<le> y + 1 / 2"
    "y - 1 / 2 \<le> real_of_int (round_half_even y)" "\<lfloor>y\<rfloor> \<le> round_half_even y"
    by (auto simp: round_half_even_def Let_def; linarith)+
qed

lemma ten_powr_minus_2: "(10::real) powr - 2 = 1 / 100"
  by (simp add: powr_minus inverse_eq_divide)

lemma floor_binary64_between:
  assumes "- 2 < y" and "y < - 3 / 2"
  shows "\<lfloor>binary64 y\<rfloor> = - 2"
proof -
  define r where "r = round_half_even (y / power_int 2 (0 - 52))"
  have b: "binary64 y = of_int r * power_int 2 (0 - 52)"
    unfolding r_def using assms by (intro binary64_binade) simp_all
  have y: "y / power_int 2 (0 - 52) = y * 4503599627370496"
    by (simp add: power_int_minus)
  have "- 9007199254740992 \<le> \<lfloor>y * 4503599627370496\<rfloor>"
    using assms(1) by (simp add: le_floor_iff)
  then have lo: "- 9007199254740992 \<le> r"
    using round_half_even_bounds(3) [of "y * 4503599627370496"] unfolding r_def y by linarith
  have "real_of_int r \<le> y * 4503599627370496 + 1 / 2"
    using round_half_even_bounds(1) [of "y * 4503599627370496"] unfolding r_def y .
  then have "real_of_int r < - 4503599627370496" using assms(2) by simp
  then have hi: "r < - 4503599627370496" by linarith
  have v: "binary64 y = of_int r / 4503599627370496"
    unfolding b by (simp add: power_int_minus)
  have "- 2 \<le> binary64 y" using lo unfolding v by (simp add: le_divide_eq)
  moreover have "binary64 y < - 1" using hi unfolding v by (simp add: divide_less_eq)
  ultimately show ?thesis by linarith
qed

subsection \<open>Round trip and endpoints\<close>

lemma LogScale_log_Num:
  "0 < base s \<Longrightarrow> base s \<noteq> 1 \<Longrightarrow> 0 < x \<Longrightarrow> LogScale_log s (Num x) = Num (ln x / ln (base s))"
  by (simp add: LogScale_log_def)

lemma LinearScale_roundtrip:
  assumes "fst (domain s) \<noteq> snd (domain s)" and "fst (range_pair s) \<noteq> snd (range_pair s)"
  shows "LinearScale_invert s (LinearScale_scale s (Num v)) = Num v"
  using assms by (simp add: LinearScale_invert_def LinearScale_scale_def split_beta)

lemma LogScale_roundtrip:
  assumes nd: "fst (domain s) \<noteq> snd (domain s)" and nr: "fst (range_pair s) \<noteq> snd (range_pair s)"
    and d0: "0 < fst (domain s)" and d1: "0 < snd (domain s)"
    and b: "0 < base s" "base s \<noteq> 1" and v: "0 < v"
  shows "\<exists>y. LogScale_scale s (Num v) = Inr y \<and> LogScale_invert s y = Num v"
proof -
  obtain a c where dom: "domain s = (a, c)" by (cases "domain s")
  obtain p q where ran: "range_pair s = (p, q)" by (cases "range_pair s")
  have lb: "ln (base s) \<noteq> 0" using b by simp
  have ne: "ln c / ln (base s) - ln a / ln (base s) \<noteq> 0"
    using nd d0 d1 lb dom by (simp add: divide_eq_eq)
  have pw: "base s powr (ln v / ln (base s)) = v"
    using b v lb by (simp add: powr_def)
  show ?thesis
    using nd nr d0 d1 b v lb ne pw dom ran
    by (simp add: LogScale_scale_def LogScale_invert_def LogScale_log_Num LogScale_pow_def)
qed

text \<open>
  Claim C1. A linear scale whose domain pair and range pair are each non-degenerate
  gives \<open>invert (scale v) = v\<close> for every number \<open>v\<close>, in exact arithmetic. A log scale
  with non-degenerate pairs, strictly positive domain bounds (the invariant of the data
  model) and a base that is positive and not one gives the same for every \<open>v > 0\<close>:
  \<open>scale\<close> returns a coordinate, and \<open>invert\<close> takes it back to \<open>v\<close>.
\<close>

theorem invert_scale_identity:
  "(fst (domain s) \<noteq> snd (domain s) \<and> fst (range_pair s) \<noteq> snd (range_pair s)
      \<longrightarrow> LinearScale_invert s (LinearScale_scale s (Num v)) = Num v)
   \<and> (fst (domain l) \<noteq> snd (domain l) \<and> fst (range_pair l) \<noteq> snd (range_pair l)
        \<and> 0 < fst (domain l) \<and> 0 < snd (domain l) \<and> 0 < base l \<and> base l \<noteq> 1 \<and> 0 < w
      \<longrightarrow> (\<exists>y. LogScale_scale l (Num w) = Inr y \<and> LogScale_invert l y = Num w))"
  using LinearScale_roundtrip [of s v] LogScale_roundtrip [of l w] by blast

theorem invert_scale_identity_witness:
  "LinearScale_invert (new_Scale (0, 10) (0, 100))
       (LinearScale_scale (new_Scale (0, 10) (0, 100)) (Num 3)) = Num 3
   \<and> (\<exists>y. LogScale_scale (new_LogScale (1, 100) (0, 100) None) (Num 10) = Inr y
          \<and> LogScale_invert (new_LogScale (1, 100) (0, 100) None) y = Num 10)"
  using invert_scale_identity [of "new_Scale (0, 10) (0, 100)" 3
      "new_LogScale (1, 100) (0, 100) None" 10]
  by (simp add: new_Scale_def new_LogScale_def)

lemma LinearScale_endpoints:
  assumes "fst (domain s) \<noteq> snd (domain s)"
  shows "LinearScale_scale s (Num (fst (domain s))) = Num (fst (range_pair s))"
    and "LinearScale_scale s (Num (snd (domain s))) = Num (snd (range_pair s))"
  using assms by (simp_all add: LinearScale_scale_def split_beta)

lemma LogScale_endpoints:
  assumes nd: "fst (domain s) \<noteq> snd (domain s)"
    and d0: "0 < fst (domain s)" and d1: "0 < snd (domain s)"
    and b: "0 < base s" "base s \<noteq> 1"
  shows "LogScale_scale s (Num (fst (domain s))) = Inr (Num (fst (range_pair s)))"
    and "LogScale_scale s (Num (snd (domain s))) = Inr (Num (snd (range_pair s)))"
proof -
  have lb: "ln (base s) \<noteq> 0" using b by simp
  have ne: "ln (snd (domain s)) / ln (base s) - ln (fst (domain s)) / ln (base s) \<noteq> 0"
    using nd d0 d1 lb by (simp add: divide_eq_eq)
  show "LogScale_scale s (Num (fst (domain s))) = Inr (Num (fst (range_pair s)))"
    using nd d0 d1 b ne by (simp add: LogScale_scale_def LogScale_log_Num split_beta)
  show "LogScale_scale s (Num (snd (domain s))) = Inr (Num (snd (range_pair s)))"
    using nd d0 d1 b ne by (simp add: LogScale_scale_def LogScale_log_Num split_beta)
qed

lemma ln_100: "ln (100::real) = 2 * ln 10"
  using ln_realpow [of 10 2] by simp

lemma LogScale_decade_example:
  "LogScale_scale (new_LogScale (1, 100) (0, 100) (Some 10)) (Num 10) = Inr (Num 50)"
  "LogScale_scale (new_LogScale (1, 100) (0, 100) (Some 10)) (Num 1) = Inr (Num 0)"
  "LogScale_scale (new_LogScale (1, 100) (0, 100) (Some 10)) (Num 100) = Inr (Num 100)"
  by (simp_all add: LogScale_scale_def new_LogScale_def LogScale_log_def ln_100)

text \<open>
  Claim C2, as the code has it. In exact arithmetic and with a non-degenerate domain,
  \<open>scale\<close> maps the first domain bound to the first range bound and the second to the
  second: for every linear scale, and for every log scale whose domain bounds are
  strictly positive (the invariant of the data model) and whose base is positive and not
  one. The log scale with domain \<open>[1, 100]\<close>, range \<open>[0, 100]\<close> and base 10 maps 10 to
  50, 1 to 0 and 100 to 100.
\<close>

theorem scale_maps_endpoints:
  "(fst (domain s) \<noteq> snd (domain s)
      \<longrightarrow> LinearScale_scale s (Num (fst (domain s))) = Num (fst (range_pair s))
        \<and> LinearScale_scale s (Num (snd (domain s))) = Num (snd (range_pair s)))
   \<and> (fst (domain l) \<noteq> snd (domain l) \<and> 0 < fst (domain l) \<and> 0 < snd (domain l)
        \<and> 0 < base l \<and> base l \<noteq> 1
      \<longrightarrow> LogScale_scale l (Num (fst (domain l))) = Inr (Num (fst (range_pair l)))
        \<and> LogScale_scale l (Num (snd (domain l))) = Inr (Num (snd (range_pair l))))
   \<and> LogScale_scale (new_LogScale (1, 100) (0, 100) (Some 10)) (Num 10) = Inr (Num 50)
   \<and> LogScale_scale (new_LogScale (1, 100) (0, 100) (Some 10)) (Num 1) = Inr (Num 0)
   \<and> LogScale_scale (new_LogScale (1, 100) (0, 100) (Some 10)) (Num 100) = Inr (Num 100)"
  using LinearScale_endpoints [of s] LogScale_endpoints [of l] LogScale_decade_example
  by blast

theorem scale_maps_endpoints_witness:
  "LinearScale_scale (new_Scale (2, 12) (300, 0)) (Num 2) = Num 300
   \<and> LinearScale_scale (new_Scale (2, 12) (300, 0)) (Num 12) = Num 0
   \<and> LogScale_scale (new_LogScale (4, 64) (0, 480) (Some 2)) (Num 4) = Inr (Num 0)
   \<and> LogScale_scale (new_LogScale (4, 64) (0, 480) (Some 2)) (Num 64) = Inr (Num 480)"
  using scale_maps_endpoints [of "new_Scale (2, 12) (300, 0)"
      "new_LogScale (4, 64) (0, 480) (Some 2)"]
  by (simp add: new_Scale_def new_LogScale_def)

lemma scale64_steps:
  "sub64 (Num (3152519739159347 / 4503599627370496)) (Num 0)
     = Num (3152519739159347 / 4503599627370496)"
  "sub64 (Num 480) (Num 0) = Num 480"
  "mul64 (Num (3152519739159347 / 4503599627370496)) (Num 480) = Num 336"
  "div64 (Num 336) (Num (3152519739159347 / 4503599627370496))
     = Num (8444249301319681 / 17592186044416)"
  "add64 (Num 0) (Num (8444249301319681 / 17592186044416))
     = Num (8444249301319681 / 17592186044416)"
  using binary64_binade [of "- 1" "3152519739159347 / 4503599627370496"]
    binary64_binade [of 8 480]
    binary64_binade [of 8 "3152519739159347 / 4503599627370496 * 480"]
    binary64_binade [of 8 "336 / (3152519739159347 / 4503599627370496)"]
    binary64_binade [of 8 "8444249301319681 / 17592186044416"]
  by (simp_all add: sub64_def mul64_def div64_def add64_def round_half_even_def)

lemma LinearScale_scale64_example:
  "LinearScale_scale64 (new_Scale (0, binary64 (7 / 10)) (0, 480)) (Num (binary64 (7 / 10)))
     = Num (8444249301319681 / 17592186044416)"
  by (simp add: LinearScale_scale64_def new_Scale_def binary64_7_10 scale64_steps)

text \<open>
  Claim C2 as stated fails in the arithmetic of the engine: the equality at the second
  bound holds up to rounding only. The linear scale with domain \<open>[0, 0.7]\<close> and range
  \<open>[0, 480]\<close> maps its domain bound \<open>0.7\<close> to \<open>480 + 2^-44\<close>, the double above 480
  (printed \<open>480.00000000000006\<close>): the product \<open>0.7 * 480\<close> rounds to 336, and the
  quotient \<open>336 / 0.7\<close> rounds upwards.
\<close>

theorem LinearScale_upper_endpoint_rounded:
  "fst (domain (new_Scale (0, binary64 (7 / 10)) (0, 480)))
     \<noteq> snd (domain (new_Scale (0, binary64 (7 / 10)) (0, 480)))
   \<and> LinearScale_scale64 (new_Scale (0, binary64 (7 / 10)) (0, 480)) (Num (binary64 (7 / 10)))
     = Num (480 + 1 / 2 ^ 44)
   \<and> LinearScale_scale64 (new_Scale (0, binary64 (7 / 10)) (0, 480)) (Num (binary64 (7 / 10)))
     \<noteq> Num 480"
  by (simp add: LinearScale_scale64_example) (simp add: new_Scale_def binary64_7_10)

text \<open>
  Claim C9, as the code has it. A call on a log scale throws exactly when it asks
  \<open>scale\<close> for a value that is zero or negative, and the error is the one with the
  message \<open>'Log scale domain must be positive'\<close>. The constructor, \<open>setDomain\<close>,
  \<open>setRange\<close> and \<open>invert\<close> never throw, whatever the bounds and the coordinate are.
\<close>

theorem LogScale_throws_iff:
  "LogScale_run c = Inl e \<longleftrightarrow> e = LogDomainError \<and> scales_nonpositive c"
  by (cases c) (auto simp: LogScale_scale_def split_beta split: sum.splits)

text \<open>
  Claim C9 as stated fails here: rebinding a log scale to the domain \<open>[-1, 10]\<close> returns
  the rebound scale, and so does constructing one with the domain \<open>[0, 10]\<close>; inverting
  the coordinate \<open>-5\<close> returns a number. None of the three throws.
\<close>

theorem LogScale_nonpositive_bound_accepted:
  "LogScale_run (Call_setDomain (new_LogScale (1, 100) (0, 100) None) (- 1, 10))
     = Inr (Returned_scale \<lparr>domain = (- 1, 10), range_pair = (0, 100), base = 10\<rparr>)
   \<and> LogScale_run (Call_new (0, 10) (0, 100) None)
     = Inr (Returned_scale \<lparr>domain = (0, 10), range_pair = (0, 100), base = 10\<rparr>)
   \<and> LogScale_run (Call_invert (new_LogScale (1, 100) (0, 100) None) (Num (- 5)))
     = Inr (Returned_number (Num (10 powr (- (1 / 10)))))"
  by (simp add: new_LogScale_def setDomain_def LogScale_invert_def LogScale_log_def
      LogScale_pow_def ln_100)

subsection \<open>The nice domain\<close>

lemma Math_pow_10: "Math_pow (Num 10) (Num x) = Num (10 powr x)"
  by simp

lemma nice_step_ladder:
  "0 < nice_step minv maxv c
   \<and> (\<exists>k m. (m = 1 \<or> m = 2 \<or> m = 5) \<and> nice_step minv maxv c = m * 10 powr real_of_int k)"
proof -
  define k where "k = \<lfloor>log 10 ((maxv - minv) / c)\<rfloor>"
  define m :: real where
    "m = (if 5 \<le> (maxv - minv) / (c * 10 powr of_int k) then 5
          else if 2 \<le> (maxv - minv) / (c * 10 powr of_int k) then 2 else 1)"
  have e: "nice_step minv maxv c = m * 10 powr of_int k"
    by (simp add: nice_step_def Let_def k_def m_def)
  have "m = 1 \<or> m = 2 \<or> m = 5" by (simp add: m_def)
  moreover have "0 < m * 10 powr of_int k" by (simp add: m_def)
  ultimately show ?thesis using e by auto
qed

lemma createNiceDomain_step:
  assumes "minv < maxv" "0 < c"
  shows "createNiceDomain minv maxv (Some c) =
     (Num (of_int \<lfloor>minv / nice_step minv maxv c\<rfloor> * nice_step minv maxv c),
      Num (of_int \<lceil>maxv / nice_step minv maxv c\<rceil> * nice_step minv maxv c))"
proof -
  define k where "k = \<lfloor>log 10 ((maxv - minv) / c)\<rfloor>"
  define s0 where "s0 = (10::real) powr (of_int k)"
  define ratio where "ratio = (maxv - minv) / (c * s0)"
  have pos: "0 < (maxv - minv) / c" using assms by simp
  have s0pos: "0 < s0" by (simp add: s0_def)
  have cs: "c * s0 \<noteq> 0" using assms s0pos by simp
  have step0: "Math_pow (Num 10) (Math_floor (Math_log10 (Num (maxv - minv) / Num c))) = Num s0"
    using pos assms(2) unfolding s0_def k_def
    by (simp only: divide_number.simps Math_log10.simps Math_floor.simps Math_pow_10 if_True if_False)
       simp
  have rat: "Num (maxv - minv) / (Num c * Num s0) = Num ratio"
    using cs by (simp add: ratio_def)
  have step: "(if Num 5 \<le> Num ratio then Num s0 * Num 5
               else if Num 2 \<le> Num ratio then Num s0 * Num 2
               else Num s0) = Num (nice_step minv maxv c)"
    by (simp add: nice_step_def Let_def k_def s0_def ratio_def)
  have ms: "nice_step minv maxv c \<noteq> 0" using nice_step_ladder [of minv maxv c] by simp
  show ?thesis
    using assms(1) ms unfolding createNiceDomain_def Let_def option.case step0 rat step
    by simp
qed

lemma floor_step_le: "0 < (s::real) \<Longrightarrow> of_int \<lfloor>x / s\<rfloor> * s \<le> x"
  by (metis floor_divide_lower)

lemma ceiling_step_ge: "0 < (s::real) \<Longrightarrow> x \<le> of_int \<lceil>x / s\<rceil> * s"
  by (metis ceiling_divide_upper)

lemma createNiceDomain_degenerate:
  "createNiceDomain m m count_arg = (Num (m - 1), Num (m + 1))"
  by (simp add: createNiceDomain_def)

lemma createNiceDomain_bounds:
  assumes "minv \<le> maxv" "0 < default_to 5 count_arg"
  shows "\<exists>niceMin niceMax. createNiceDomain minv maxv count_arg = (Num niceMin, Num niceMax)
     \<and> niceMin \<le> minv \<and> maxv \<le> niceMax"
proof (cases "minv = maxv")
  case True
  then show ?thesis by (simp add: createNiceDomain_degenerate)
next
  case False
  define c where "c = default_to 5 count_arg"
  have lt: "minv < maxv" using False assms(1) by simp
  have c: "0 < c" using assms(2) by (simp add: c_def)
  have same: "createNiceDomain minv maxv count_arg = createNiceDomain minv maxv (Some c)"
    by (simp add: createNiceDomain_def c_def default_to_def split: option.splits)
  have s: "0 < nice_step minv maxv c" using nice_step_ladder [of minv maxv c] by simp
  show ?thesis
    unfolding same createNiceDomain_step [OF lt c]
    using floor_step_le [OF s, of minv] ceiling_step_ge [OF s, of maxv] by simp
qed

text \<open>
  Claim C3, as the code has it. For \<open>min \<le> max\<close> and a positive count (given, or the
  default 5), \<open>createNiceDomain\<close> returns, in exact arithmetic, a pair of numbers
  \<open>niceMin \<le> min\<close> and \<open>niceMax \<ge> max\<close>. For \<open>min < max\<close> the pair is
  \<open>floor (min / step) * step\<close> and \<open>ceil (max / step) * step\<close>, where the step is the
  power of ten below \<open>(max - min) / count\<close> times 1, 2 or 5. For \<open>min = max\<close> the pair
  is \<open>[min - 1, max + 1]\<close> whatever the count is, so \<open>createNiceDomain(5, 5, n)\<close> is
  \<open>[4, 6]\<close>.
\<close>

theorem createNiceDomain_covers:
  "(minv \<le> maxv \<and> 0 < default_to 5 count_arg
      \<longrightarrow> (\<exists>niceMin niceMax. createNiceDomain minv maxv count_arg = (Num niceMin, Num niceMax)
             \<and> niceMin \<le> minv \<and> maxv \<le> niceMax))
   \<and> (minv < maxv \<and> 0 < c
      \<longrightarrow> createNiceDomain minv maxv (Some c) =
            (Num (of_int \<lfloor>minv / nice_step minv maxv c\<rfloor> * nice_step minv maxv c),
             Num (of_int \<lceil>maxv / nice_step minv maxv c\<rceil> * nice_step minv maxv c))
        \<and> (\<exists>k m. (m = 1 \<or> m = 2 \<or> m = 5) \<and> nice_step minv maxv c = m * 10 powr real_of_int k))
   \<and> createNiceDomain v v count_arg = (Num (v - 1), Num (v + 1))
   \<and> createNiceDomain 5 5 count_arg = (Num 4, Num 6)"
  using createNiceDomain_bounds [of minv maxv count_arg] createNiceDomain_step [of minv maxv c]
    nice_step_ladder [of minv maxv c] createNiceDomain_degenerate [of v count_arg]
    createNiceDomain_degenerate [of 5 count_arg]
  by simp

lemma floor_log_example: "\<lfloor>log 10 (94 / 5 :: real)\<rfloor> = 1"
proof -
  have "(1::real) \<le> log 10 (94 / 5)"
    by (subst le_log_iff) simp_all
  moreover have "log 10 (94 / 5 :: real) < 2"
    by (subst log_less_iff) simp_all
  ultimately show ?thesis by linarith
qed

lemma nice_step_example: "nice_step 3 97 5 = 10"
  by (simp add: nice_step_def Let_def floor_log_example)

theorem createNiceDomain_covers_witness:
  "(\<exists>niceMin niceMax. createNiceDomain 3 97 None = (Num niceMin, Num niceMax)
       \<and> niceMin \<le> 3 \<and> 97 \<le> niceMax)
   \<and> createNiceDomain 3 97 (Some 5) = (Num 0, Num 100)"
  using createNiceDomain_covers [of 3 97 None 5]
  by (simp add: default_to_def nice_step_example)

lemma log10_example:
  "- 2 < log 10 (45035996273705 / 2251799813685248)"
  "log 10 (45035996273705 / 2251799813685248) < - 3 / 2"
proof -
  show "- 2 < log 10 (45035996273705 / 2251799813685248 :: real)"
    by (subst less_log_iff) (simp_all add: ten_powr_minus_2)
  have s: "sqrt 10 < 4" by (rule real_less_lsqrt) simp_all
  have "(45035996273705 / 2251799813685248 :: real) < 1 / (10 * 4)" by simp
  also have "\<dots> < 1 / (10 * sqrt 10)" using s by (simp add: frac_less2)
  also have "\<dots> = 10 powr (- 3 / 2)"
    by (simp add: powr_minus powr_half_sqrt field_simps powr_add [of 10 1 "1 / 2", simplified])
  finally show "log 10 (45035996273705 / 2251799813685248 :: real) < - 3 / 2"
    by (subst log_less_iff) simp_all
qed

lemma floor_log10_64_example:
  "Math_floor (Math_log10_64 (Num (45035996273705 / 2251799813685248))) = Num (- 2)"
  using floor_binary64_between [OF log10_example] by (simp add: Math_log10_64_def)

lemma nice64_steps:
  "sub64 (Num (3602879701896397 / 4503599627370496)) (Num (3152519739159347 / 4503599627370496))
     = Num (225179981368525 / 2251799813685248)"
  "div64 (Num (225179981368525 / 2251799813685248)) (Num 5)
     = Num (45035996273705 / 2251799813685248)"
  "Math_pow64 (Num 10) (Num (- 2)) = Num (5764607523034235 / 576460752303423488)"
  "mul64 (Num 5) (Num (5764607523034235 / 576460752303423488))
     = Num (3602879701896397 / 72057594037927936)"
  "div64 (Num (225179981368525 / 2251799813685248)) (Num (3602879701896397 / 72057594037927936))
     = Num (1125899906842625 / 562949953421312)"
  "mul64 (Num (5764607523034235 / 576460752303423488)) (Num 2)
     = Num (5764607523034235 / 288230376151711744)"
  "div64 (Num (3152519739159347 / 4503599627370496)) (Num (5764607523034235 / 288230376151711744))
     = Num 35"
  "mul64 (Num 35) (Num (5764607523034235 / 288230376151711744))
     = Num (6305039478318695 / 9007199254740992)"
  "div64 (Num (3602879701896397 / 4503599627370496)) (Num (5764607523034235 / 288230376151711744))
     = Num 40"
  "mul64 (Num 40) (Num (5764607523034235 / 288230376151711744))
     = Num (3602879701896397 / 4503599627370496)"
  using binary64_binade [of "- 4" "3602879701896397 / 4503599627370496 - 3152519739159347 / 4503599627370496"]
    binary64_binade [of "- 6" "225179981368525 / 2251799813685248 / 5"]
    binary64_binade [of "- 7" "1 / 100"]
    binary64_binade [of "- 5" "5 * (5764607523034235 / 576460752303423488)"]
    binary64_binade [of 1 "225179981368525 / 2251799813685248 / (3602879701896397 / 72057594037927936)"]
    binary64_binade [of "- 6" "5764607523034235 / 576460752303423488 * 2"]
    binary64_binade [of 5 "3152519739159347 / 4503599627370496 / (5764607523034235 / 288230376151711744)"]
    binary64_binade [of "- 1" "35 * (5764607523034235 / 288230376151711744)"]
    binary64_binade [of 5 "3602879701896397 / 4503599627370496 / (5764607523034235 / 288230376151711744)"]
    binary64_binade [of "- 1" "40 * (5764607523034235 / 288230376151711744)"]
  by (simp_all add: sub64_def mul64_def div64_def Math_pow64_def round_half_even_def
      ten_powr_minus_2)

lemma createNiceDomain64_example:
  "createNiceDomain64 (binary64 (7 / 10)) (binary64 (4 / 5)) None
     = (Num (6305039478318695 / 9007199254740992), Num (binary64 (4 / 5)))"
  by (simp add: createNiceDomain64_def binary64_7_10 binary64_4_5 nice64_steps
      floor_log10_64_example)

text \<open>
  Claim C3 as stated fails here. With \<open>min\<close> above \<open>max\<close>, as in
  \<open>createNiceDomain(10, 0)\<close>, or with the count 0, both bounds are \<open>NaN\<close>, which is
  below no number. In the arithmetic of the engine the lower bound can also come out
  above \<open>min\<close>: \<open>createNiceDomain(0.7, 0.8)\<close> takes the step \<open>0.02\<close>; the quotient
  \<open>0.7 / 0.02\<close> rounds to 35, and the product \<open>35 * 0.02\<close> rounds to \<open>0.7 + 2^-53\<close>,
  the double above \<open>0.7\<close> (printed \<open>0.7000000000000001\<close>).
\<close>

theorem createNiceDomain_misses_bounds:
  "createNiceDomain 10 0 None = (NaN, NaN)
   \<and> \<not> fst (createNiceDomain 10 0 None) \<le> Num 10
   \<and> createNiceDomain 3 97 (Some 0) = (NaN, NaN)
   \<and> createNiceDomain64 (binary64 (7 / 10)) (binary64 (4 / 5)) None
     = (Num (binary64 (7 / 10) + 1 / 2 ^ 53), Num (binary64 (4 / 5)))
   \<and> \<not> Num (binary64 (7 / 10) + 1 / 2 ^ 53) \<le> Num (binary64 (7 / 10))"
  by (simp add: createNiceDomain64_example) (simp add: createNiceDomain_def binary64_7_10)

section \<open>Properties of the indicators\<close>

lemma get_field_window:
  "j \<le> i \<Longrightarrow> i < length data \<Longrightarrow> get_field data (int i - int j) vf = Inr ((data ! (i - j)) vf)"
  by (simp add: get_field_def nat_diff_distrib' flip: of_nat_diff)


lemma SMA_sum_present:
  assumes "i < length data" "p \<le> i + 1" "\<forall>d \<in> set data. d vf \<noteq> None"
  shows "SMA_sum data vf i p j acc = Inr (acc + (\<Sum>k = j..<p. the ((data ! (i - k)) vf)))"
proof (induction "p - j" arbitrary: j acc)
  case 0
  then show ?case by (subst SMA_sum.simps) simp
next
  case (Suc n)
  then have jp: "j < p" by simp
  then have ji: "j \<le> i" using assms(2) by simp
  have "i - j < length data" using assms(1) by simp
  then have "data ! (i - j) \<in> set data" by (rule nth_mem)
  then obtain v where v: "(data ! (i - j)) vf = Some v" using assms(3) by blast
  have n: "n = p - (j + 1)" using Suc(2) by simp
  have split: "(\<Sum>k = j..<p. the ((data ! (i - k)) vf))
      = v + (\<Sum>k = j + 1..<p. the ((data ! (i - k)) vf))"
    using jp v by (simp add: sum.atLeast_Suc_lessThan)
  show ?case
    using jp Suc(1)[OF n, of "acc + v"] v
    by (subst SMA_sum.simps) (simp add: get_field_window[OF ji assms(1)] split)
qed

lemma SMA_loop_present:
  assumes "0 < p" "\<forall>d \<in> set data. d vf \<noteq> None"
  shows "SMA_loop data vf xf p i res =
     Inr (res @ map (\<lambda>i. SMA_point xf vf (data ! i) (Num (trailing_mean data vf p i)))
                  [max i (p - 1)..<length data])"
proof (induction "length data - i" arbitrary: i res)
  case 0
  then show ?case by (subst SMA_loop.simps) simp
next
  case (Suc n)
  then have il: "i < length data" by simp
  have n: "n = length data - (i + 1)" using Suc(2) by simp
  show ?case
  proof (cases "int i < int p - 1")
    case True
    then have "i + 1 < p" by linarith
    then have "max i (p - 1) = max (i + 1) (p - 1)" unfolding max_def by auto
    then show ?thesis using il True Suc(1)[OF n, of res]
      by (subst SMA_loop.simps) simp
  next
    case False
    then have pi: "p \<le> i + 1" by simp
    then have m: "max i (p - 1) = i" by (auto simp: max_def)
    have m': "max (i + 1) (p - 1) = i + 1" using pi by (auto simp: max_def)
    have s: "SMA_sum data vf i p 0 0 = Inr (trailing_mean data vf p i * real p)"
      using assms(1) by (simp add: SMA_sum_present[OF il pi assms(2)] trailing_mean_def)
    have u: "[i..<length data] = i # [i + 1..<length data]" using il by (simp add: upt_conv_Cons)
    show ?thesis
      using il False assms(1) m'
        Suc(1)[OF n, of "res @ [SMA_point xf vf (data ! i) (Num (trailing_mean data vf p i))]"]
      by (subst SMA_loop.simps) (simp add: s m u)
  qed
qed

lemma calculateSMA_present:
  assumes "default_to (Num 14) (period ps) = Num (real p)" "0 < p"
     "\<forall>d \<in> set data. d (default_to ''y'' (valueField ps)) \<noteq> None"
  shows "calculateSMA data ps =
     Inr (map (\<lambda>i. SMA_point (default_to ''x'' (xField ps)) (default_to ''y'' (valueField ps))
                     (data ! i) (Num (trailing_mean data (default_to ''y'' (valueField ps)) p i)))
           [p - 1..<length data])"
  using assms by (simp add: calculateSMA_def invalid_period_def SMA_loop_present)

lemma calculateSMA_example:
  "calculateSMA series_example (no_params\<lparr>period := Some (Num 2)\<rparr>) =
     Inr [[''x'' \<mapsto> Num 1, ''y'' \<mapsto> Num 11, ''original'' \<mapsto> Num 12],
          [''x'' \<mapsto> Num 2, ''y'' \<mapsto> Num 10.5, ''original'' \<mapsto> Num 9],
          [''x'' \<mapsto> Num 3, ''y'' \<mapsto> Num 12, ''original'' \<mapsto> Num 15]]"
  by (simp add: calculateSMA_def invalid_period_def no_params_def default_to_def series_example_def
      SMA_loop.simps SMA_sum.simps get_field_def SMA_point_def)

text \<open>
  Claim C5. For a series whose points all carry the value field and a period that is
  the positive integer \<open>p\<close> (given, or the default 14), \<open>calculateSMA\<close> returns one point
  for each index \<open>i\<close> from \<open>p - 1\<close> to the end of the series, in order, and no other:
  the point carries the \<open>x\<close> of point \<open>i\<close>, the arithmetic mean of the \<open>p\<close> values that
  end at \<open>i\<close>, and the value of point \<open>i\<close> as \<open>original\<close>. The output has
  \<open>length data - (p - 1)\<close> points. With period 2 the series
  \<open>(0,10), (1,12), (2,9), (3,15)\<close> gives \<open>(1,11), (2,10.5), (3,12)\<close>.
\<close>

theorem calculateSMA_trailing_mean:
  "(0 < p \<and> default_to (Num 14) (period ps) = Num (real p)
      \<and> (\<forall>d \<in> set data. d (default_to ''y'' (valueField ps)) \<noteq> None)
    \<longrightarrow> (\<exists>out. calculateSMA data ps = Inr out
          \<and> out = map (\<lambda>i. SMA_point (default_to ''x'' (xField ps)) (default_to ''y'' (valueField ps))
                           (data ! i)
                           (Num (trailing_mean data (default_to ''y'' (valueField ps)) p i)))
                     [p - 1..<length data]
          \<and> length out = length data - (p - 1)))
   \<and> calculateSMA series_example (no_params\<lparr>period := Some (Num 2)\<rparr>) =
       Inr [[''x'' \<mapsto> Num 1, ''y'' \<mapsto> Num 11, ''original'' \<mapsto> Num 12],
            [''x'' \<mapsto> Num 2, ''y'' \<mapsto> Num 10.5, ''original'' \<mapsto> Num 9],
            [''x'' \<mapsto> Num 3, ''y'' \<mapsto> Num 12, ''original'' \<mapsto> Num 15]]"
  using calculateSMA_present [of ps p data] calculateSMA_example by simp

theorem calculateSMA_trailing_mean_witness:
  "calculateSMA series_example (no_params\<lparr>period := Some (Num 3)\<rparr>) =
     Inr [[''x'' \<mapsto> Num 2, ''y'' \<mapsto> Num (31 / 3), ''original'' \<mapsto> Num 9],
          [''x'' \<mapsto> Num 3, ''y'' \<mapsto> Num 12, ''original'' \<mapsto> Num 15]]"
  using calculateSMA_trailing_mean [of 3 "no_params\<lparr>period := Some (Num 3)\<rparr>" series_example]
  by (simp add: no_params_def default_to_def series_example_def trailing_mean_def SMA_point_def
      upt_rec [of 2] upt_rec [of 3] upt_rec [of 4] eval_nat_numeral)

text \<open>
  Claim C10. Whatever the indicator name and the parameters are, \<open>calculateIndicator\<close>
  returns the empty array, and does not throw, when \<open>data\<close> is \<open>null\<close>, \<open>undefined\<close>,
  not an array, or the empty array: the check comes before the name is looked at and
  before any period is validated.
\<close>

theorem calculateIndicator_empty_input:
  "calculateIndicator indicator Data_null ps = Inr []
   \<and> calculateIndicator indicator Data_undefined ps = Inr []
   \<and> calculateIndicator indicator Data_other ps = Inr []
   \<and> calculateIndicator indicator (Data_array []) ps = Inr []"
  by (simp add: calculateIndicator_def)

subsection \<open>Too few points, missing values\<close>























subsection \<open>The relative strength index\<close>



















section \<open>Properties of the stacked series\<close>












section \<open>The monotone cubic path on collinear points\<close>

lemma monotone_tangents_line:
  "monotone_tangents [(0, 0), (1, 1), (2, 2)] = [Num 1, Num (1 / 2), Num 1]"
  by (simp add: monotone_tangents_def Let_def initial_slopes.simps interior_tangents.simps
      eval_nat_numeral)

lemma monotone_tangents_valley:
  "monotone_tangents [(0, 0), (1, - 1), (2, 0), (3, 1)] = [Num (- 1), Num 0, Num 0, Num 1]"
  by (simp add: monotone_tangents_def Let_def initial_slopes.simps interior_tangents.simps
      eval_nat_numeral)

text \<open>
  Claim C4 at the three points \<open>(0,0), (1,1), (2,2)\<close> of a straight line. Both segment
  slopes are 1 and so is their harmonic mean, but the interior tangent the code computes
  is \<open>a * b / (a + b) = 1/2\<close>; the second control point of the first segment is
  \<open>(2/3, 5/6)\<close>, off the line. The boundary tangents are the slopes of the first and the
  last segment, and the control points sit at one third and two thirds of each span. At
  the four points \<open>(0,0), (1,-1), (2,0), (3,1)\<close> the tangent at index 2 is zero although
  its two adjacent slopes are both 1, because the pass reads the tangent at index 1 that
  it has just set to zero.
\<close>

theorem generateMonotonePath_collinear:
  "monotone_tangents [(0, 0), (1, 1), (2, 2)] = [Num 1, Num (1 / 2), Num 1]
   \<and> harmonic_mean 1 1 = 1
   \<and> generateMonotonePath [(0, 0), (1, 1), (2, 2)] =
       [MoveTo (Num 0) (Num 0),
        CurveTo (Num (1 / 3)) (Num (1 / 3)) (Num (2 / 3)) (Num (5 / 6)) (Num 1) (Num 1),
        CurveTo (Num (4 / 3)) (Num (7 / 6)) (Num (5 / 3)) (Num (5 / 3)) (Num 2) (Num 2)]
   \<and> monotone_tangents [(0, 0), (1, - 1), (2, 0), (3, 1)] = [Num (- 1), Num 0, Num 0, Num 1]"
  by (simp add: generateMonotonePath_def monotone_tangents_line monotone_tangents_valley
      curve_segments.simps harmonic_mean_def Let_def eval_nat_numeral)

end
